theory Spec2Isabelle
  imports Complex_Main "HOL-Library.Char_ord" "HOL-Library.List_Lexorder"
    "HOL-Library.Product_Lexorder"
begin

section \<open>Forecasting Studio: backtest and walk-forward engine\<close>

text \<open>
  A shallow embedding of \<^verbatim>\<open>app/utils.py\<close> and \<^verbatim>\<open>app/strategies.py\<close>.

  Numbers. A Python/numpy float is a value of \<open>fl\<close>: a finite float64 number, written
  as the real number it denotes, or one of the three special values of IEEE 754. The five
  operations \<open>+\<close>, \<open>-\<close>, \<open>*\<close>, \<open>/\<close> and \<open>sqrt\<close> round their exact result to the nearest
  float64 number (ties to even) and overflow to an infinity; the special values follow
  IEEE 754 (\<open>x / 0\<close> is an infinity or NaN, NaN compares false with everything). The
  sign of zero is not part of the model.

  Aggregates. The float64 result of \<open>rolling(...).mean()\<close>, \<open>Series.mean()\<close> and
  \<open>Series.std()\<close> depends on the order in which the installed pandas adds the entries up
  (running sums with compensation, pairwise sums). These three routines are therefore a
  parameter \<open>N\<close> of every function that calls them, and the general statements hold for
  every \<open>N\<close>. Statements about one input are made with the instance \<open>plain_numerics\<close>,
  which adds from left to right.

  Data frames. A price frame is the list of its rows \<open>(timestamp, close)\<close>, a signal
  frame the list of its rows \<open>(timestamp, signal)\<close>; a pandas Series is the list of
  its values, a missing value being NaN (or \<open>None\<close> in an integer column). The closes
  of a price frame are finite float64 numbers. Timestamps are integers (instants).

  Errors. A raised exception is the value \<open>Inl e\<close> of a sum type, a returned result
  \<open>Inr r\<close>.
\<close>

subsection \<open>Floats with special values\<close>

datatype fl = Fin real | PInf | NInf | NaN

fun isnan :: "fl \<Rightarrow> bool" where
  "isnan NaN = True"
| "isnan _ = False"

fun is_fin :: "fl \<Rightarrow> bool" where
  "is_fin (Fin _) = True"
| "is_fin _ = False"

text \<open>Rounding a real number to an integer, a tie going to the even neighbour.\<close>

definition round_even :: "real \<Rightarrow> int" where
  "round_even t =
     (let f = \<lfloor>t\<rfloor>; d = t - of_int f
      in if d < 1 / 2 then f else if 1 / 2 < d then f + 1 else if even f then f else f + 1)"

text \<open>
  Rounding a real number to float64 (binary64, round to nearest, ties to even): the
  result is a multiple of the unit in the last place \<open>u\<close>, which is \<open>2\<^sup>e\<^sup>-\<^sup>5\<^sup>2\<close> for
  \<open>2\<^sup>e \<le> |x| < 2\<^sup>e\<^sup>+\<^sup>1\<close> and \<open>2\<^sup>-\<^sup>1\<^sup>0\<^sup>7\<^sup>4\<close> below \<open>2\<^sup>-\<^sup>1\<^sup>0\<^sup>2\<^sup>2\<close> (subnormal numbers); a
  rounded magnitude of \<open>2\<^sup>1\<^sup>0\<^sup>2\<^sup>4\<close> or more is an infinity.
\<close>

definition round64 :: "real \<Rightarrow> fl" where
  "round64 x =
     (if x = 0 then Fin 0
      else (let e = max \<lfloor>log 2 \<bar>x\<bar>\<rfloor> (- 1022);
                u = 2 powr (of_int e - 52);
                y = of_int (round_even (x / u)) * u
            in if 2 ^ 1024 \<le> \<bar>y\<bar> then (if 0 < x then PInf else NInf) else Fin y))"

fun fl_neg :: "fl \<Rightarrow> fl" where
  "fl_neg (Fin a) = Fin (- a)"
| "fl_neg PInf = NInf"
| "fl_neg NInf = PInf"
| "fl_neg NaN = NaN"

fun fl_add :: "fl \<Rightarrow> fl \<Rightarrow> fl" where
  "fl_add NaN _ = NaN"
| "fl_add _ NaN = NaN"
| "fl_add PInf NInf = NaN"
| "fl_add NInf PInf = NaN"
| "fl_add PInf _ = PInf"
| "fl_add _ PInf = PInf"
| "fl_add NInf _ = NInf"
| "fl_add _ NInf = NInf"
| "fl_add (Fin a) (Fin b) = round64 (a + b)"

definition fl_sub :: "fl \<Rightarrow> fl \<Rightarrow> fl" where
  "fl_sub a b = fl_add a (fl_neg b)"

text \<open>The sign of an infinite product or quotient: \<open>inf * 0\<close> is NaN.\<close>

definition signed_inf :: "real \<Rightarrow> fl" where
  "signed_inf s = (if s > 0 then PInf else if s < 0 then NInf else NaN)"

fun fl_mul :: "fl \<Rightarrow> fl \<Rightarrow> fl" where
  "fl_mul NaN _ = NaN"
| "fl_mul _ NaN = NaN"
| "fl_mul (Fin a) (Fin b) = round64 (a * b)"
| "fl_mul (Fin a) PInf = signed_inf a"
| "fl_mul (Fin a) NInf = signed_inf (- a)"
| "fl_mul PInf (Fin b) = signed_inf b"
| "fl_mul NInf (Fin b) = signed_inf (- b)"
| "fl_mul PInf PInf = PInf"
| "fl_mul NInf NInf = PInf"
| "fl_mul PInf NInf = NInf"
| "fl_mul NInf PInf = NInf"

text \<open>numpy division: no exception, \<open>x / 0\<close> is a signed infinity and \<open>0 / 0\<close> NaN.\<close>

fun fl_div :: "fl \<Rightarrow> fl \<Rightarrow> fl" where
  "fl_div NaN _ = NaN"
| "fl_div _ NaN = NaN"
| "fl_div (Fin a) (Fin b) = (if b = 0 then signed_inf a else round64 (a / b))"
| "fl_div (Fin a) PInf = Fin 0"
| "fl_div (Fin a) NInf = Fin 0"
| "fl_div PInf (Fin b) = (if b < 0 then NInf else PInf)"
| "fl_div NInf (Fin b) = (if b < 0 then PInf else NInf)"
| "fl_div PInf _ = NaN"
| "fl_div NInf _ = NaN"

fun fl_sqrt :: "fl \<Rightarrow> fl" where
  "fl_sqrt (Fin a) = (if a < 0 then NaN else round64 (sqrt a))"
| "fl_sqrt PInf = PInf"
| "fl_sqrt NInf = NaN"
| "fl_sqrt NaN = NaN"

fun fl_abs :: "fl \<Rightarrow> fl" where
  "fl_abs (Fin a) = Fin \<bar>a\<bar>"
| "fl_abs PInf = PInf"
| "fl_abs NInf = PInf"
| "fl_abs NaN = NaN"

text \<open>\<open>a < b\<close> on floats: false as soon as one side is NaN.\<close>

fun fl_lt :: "fl \<Rightarrow> fl \<Rightarrow> bool" where
  "fl_lt NaN _ = False"
| "fl_lt _ NaN = False"
| "fl_lt (Fin a) (Fin b) = (a < b)"
| "fl_lt (Fin a) PInf = True"
| "fl_lt (Fin a) NInf = False"
| "fl_lt PInf _ = False"
| "fl_lt NInf NInf = False"
| "fl_lt NInf _ = True"

definition fl_gt :: "fl \<Rightarrow> fl \<Rightarrow> bool" where
  "fl_gt a b = fl_lt b a"

text \<open>\<open>a == b\<close> on floats: NaN is not equal to itself.\<close>

definition fl_eq :: "fl \<Rightarrow> fl \<Rightarrow> bool" where
  "fl_eq a b = (\<not> isnan a \<and> a = b)"

text \<open>Python's \<open>max(a, b)\<close>: the first argument unless the second is greater.\<close>

definition py_max :: "fl \<Rightarrow> fl \<Rightarrow> fl" where
  "py_max a b = (if fl_gt b a then b else a)"

subsection \<open>pandas and numpy operations on a Series\<close>

text \<open>\<open>s.fillna(0)\<close>.\<close>

definition fillna0 :: "fl list \<Rightarrow> fl list" where
  "fillna0 xs = map (\<lambda>x. if isnan x then Fin 0 else x) xs"

text \<open>
  \<open>s.pct_change()\<close>: \<open>s / s.shift(1) - 1\<close>, NaN at the first position. (The forward
  fill of missing input values that older pandas versions apply first is left out; it
  acts only on a series that already holds NaN.)
\<close>

fun pct_change :: "fl list \<Rightarrow> fl list" where
  "pct_change [] = []"
| "pct_change (x # xs) = NaN # map2 (\<lambda>cur prev. fl_sub (fl_div cur prev) (Fin 1)) xs (x # xs)"

text \<open>\<open>s.cumprod()\<close> and \<open>s.cummax()\<close> skip NaN: the entry stays NaN, the running value
  is kept.\<close>

fun cumprod_from :: "fl option \<Rightarrow> fl list \<Rightarrow> fl list" where
  "cumprod_from acc [] = []"
| "cumprod_from acc (x # xs) =
     (if isnan x then NaN # cumprod_from acc xs
      else (let p = (case acc of None \<Rightarrow> x | Some a \<Rightarrow> fl_mul a x)
            in p # cumprod_from (Some p) xs))"

definition cumprod :: "fl list \<Rightarrow> fl list" where
  "cumprod xs = cumprod_from None xs"

fun cummax_from :: "fl option \<Rightarrow> fl list \<Rightarrow> fl list" where
  "cummax_from acc [] = []"
| "cummax_from acc (x # xs) =
     (if isnan x then NaN # cummax_from acc xs
      else (let m = (case acc of None \<Rightarrow> x | Some a \<Rightarrow> (if fl_lt a x then x else a))
            in m # cummax_from (Some m) xs))"

definition cummax :: "fl list \<Rightarrow> fl list" where
  "cummax xs = cummax_from None xs"

text \<open>\<open>s.min()\<close> skips NaN as well.\<close>

definition dropna :: "fl list \<Rightarrow> fl list" where
  "dropna xs = filter (\<lambda>x. \<not> isnan x) xs"

fun min_list_fl :: "fl \<Rightarrow> fl list \<Rightarrow> fl" where
  "min_list_fl m [] = m"
| "min_list_fl m (x # xs) = min_list_fl (if fl_lt x m then x else m) xs"

definition series_min :: "fl list \<Rightarrow> fl" where
  "series_min xs = (case dropna xs of [] \<Rightarrow> NaN | y # ys \<Rightarrow> min_list_fl y ys)"

text \<open>
  The aggregates whose float64 result depends on the summation scheme of pandas:
  \<open>s.rolling(window=w, min_periods=1).mean()\<close>, \<open>s.mean()\<close> and \<open>s.std()\<close>.
\<close>

record numerics =
  roll_mean :: "nat \<Rightarrow> fl list \<Rightarrow> fl list"
  ser_mean :: "fl list \<Rightarrow> fl"
  ser_std :: "fl list \<Rightarrow> fl"

text \<open>
  The plain instance. Sums run from left to right; the rolling mean at position \<open>t\<close> is
  the mean of the last \<open>w\<close> values up to \<open>t\<close>, of all of them while there are fewer; mean
  and standard deviation skip NaN, the standard deviation is the sample one
  (\<open>ddof = 1\<close>), computed in two passes, and NaN below two observations.
\<close>

definition fl_sum :: "fl list \<Rightarrow> fl" where
  "fl_sum xs = foldl fl_add (Fin 0) xs"

definition rolling_window :: "nat \<Rightarrow> 'a list \<Rightarrow> nat \<Rightarrow> 'a list" where
  "rolling_window w xs t = drop (Suc t - w) (take (Suc t) xs)"

definition plain_rolling_mean :: "nat \<Rightarrow> fl list \<Rightarrow> fl list" where
  "plain_rolling_mean w xs =
     map (\<lambda>t. fl_div (fl_sum (rolling_window w xs t))
                 (Fin (real (length (rolling_window w xs t)))))
       [0..<length xs]"

definition plain_mean :: "fl list \<Rightarrow> fl" where
  "plain_mean xs =
     (let ys = dropna xs
      in if ys = [] then NaN else fl_div (fl_sum ys) (Fin (real (length ys))))"

definition plain_var :: "fl list \<Rightarrow> fl" where
  "plain_var xs =
     (let ys = dropna xs; n = length ys
      in if n \<le> 1 then NaN
         else (let avg = fl_div (fl_sum ys) (Fin (real n));
                   sqr = map (\<lambda>y. fl_mul (fl_sub avg y) (fl_sub avg y)) ys
               in fl_div (fl_sum sqr) (Fin (real (n - 1)))))"

definition plain_std :: "fl list \<Rightarrow> fl" where
  "plain_std xs = fl_sqrt (plain_var xs)"

definition plain_numerics :: numerics where
  "plain_numerics =
     \<lparr>roll_mean = plain_rolling_mean, ser_mean = plain_mean, ser_std = plain_std\<rparr>"

text \<open>\<open>s.shift(1)\<close> on an integer column: a missing value enters at the front, the last
  value leaves.\<close>

definition shift1 :: "'a list \<Rightarrow> 'a option list" where
  "shift1 xs = (case xs of [] \<Rightarrow> [] | _ # _ \<Rightarrow> None # map Some (butlast xs))"

definition fillna0_int :: "int option list \<Rightarrow> int list" where
  "fillna0_int xs = map (\<lambda>x. case x of None \<Rightarrow> 0 | Some v \<Rightarrow> v) xs"

text \<open>\<open>s.diff().abs().fillna(0)\<close> on the position column.\<close>

fun diff_abs_fillna0 :: "int list \<Rightarrow> int list" where
  "diff_abs_fillna0 [] = []"
| "diff_abs_fillna0 (x # xs) = 0 # map2 (\<lambda>cur prev. \<bar>cur - prev\<bar>) xs (x # xs)"

text \<open>\<open>df.iloc[a:b]\<close> for \<open>0 \<le> a \<le> b\<close>.\<close>

definition iloc :: "'a list \<Rightarrow> nat \<Rightarrow> nat \<Rightarrow> 'a list" where
  "iloc xs a b = take (b - a) (drop a xs)"

text \<open>\<open>np.median\<close>: NaN if a value is NaN; else the middle of the sorted values, the mean
  of the two middle ones for an even count. The sort key orders the infinities around
  the finite values.\<close>

fun sort_key_fl :: "fl \<Rightarrow> nat \<times> real" where
  "sort_key_fl NInf = (0, 0)"
| "sort_key_fl (Fin a) = (1, a)"
| "sort_key_fl PInf = (2, 0)"
| "sort_key_fl NaN = (3, 0)"

definition np_median :: "fl list \<Rightarrow> fl" where
  "np_median xs =
     (if xs = [] \<or> list_ex isnan xs then NaN
      else (let ys = sort_key sort_key_fl xs; n = length ys
            in if odd n then ys ! (n div 2)
               else fl_div (fl_add (ys ! (n div 2 - 1)) (ys ! (n div 2))) (Fin 2)))"

text \<open>The exceptions the two modules can raise.\<close>

datatype error =
  ValueError | TypeError | IndexError | ZeroDivisionError | AttributeError | OverflowError

text \<open>Python's float division \<open>a / b\<close> raises on a zero divisor.\<close>

definition py_div :: "fl \<Rightarrow> fl \<Rightarrow> error + fl" where
  "py_div a b = (if fl_eq b (Fin 0) then Inl ZeroDivisionError else Inr (fl_div a b))"

text \<open>
  \<open>s.dt.isoformat()\<close> on a column of timestamps. The \<open>.dt\<close> accessor of pandas has no
  attribute \<open>isoformat\<close> (it offers \<open>strftime\<close>), so the attribute lookup raises
  AttributeError whatever the column holds, and the call never yields its list of
  strings.
\<close>

definition dt_isoformat :: "int list \<Rightarrow> error + string list" where
  "dt_isoformat ts = Inl AttributeError"

subsection \<open>Strategies (strategies.py)\<close>

text \<open>A parameter value as it arrives from JSON; a parameter set is a dict, written as
  the list of its items (keys distinct).\<close>

datatype pyval = PyInt int | PyFloat real | PyStr string

type_synonym params = "(string \<times> pyval) list"

text \<open>A price frame: rows \<open>(timestamp, close)\<close> with a finite close.\<close>

type_synonym frame = "(int \<times> real) list"

datatype strategy = SmaCross (fast: int) (slow: int)

text \<open>\<open>SmaCross.__init__\<close>.\<close>

fun SmaCross_init :: "pyval \<Rightarrow> pyval \<Rightarrow> error + strategy" where
  "SmaCross_init (PyInt f) (PyInt s) =
     (if f < 1 \<or> s < 1 then Inl ValueError else Inr (SmaCross f s))"
| "SmaCross_init _ _ = Inl ValueError"

text \<open>
  \<open>create_strategy\<close>: the registry holds the one class registered at import time,
  \<open>sma_cross\<close>. \<open>cls(**params)\<close> raises TypeError on a keyword the constructor does not
  have and takes the defaults 10 and 30 for a missing one.
\<close>

definition create_strategy :: "string \<Rightarrow> params \<Rightarrow> error + strategy" where
  "create_strategy name params =
     (if name \<noteq> ''sma_cross'' then Inl ValueError
      else if list_ex (\<lambda>k. k \<noteq> ''fast'' \<and> k \<noteq> ''slow'') (map fst params) then Inl TypeError
      else SmaCross_init
             (case map_of params ''fast'' of None \<Rightarrow> PyInt 10 | Some v \<Rightarrow> v)
             (case map_of params ''slow'' of None \<Rightarrow> PyInt 30 | Some v \<Rightarrow> v))"

text \<open>
  \<open>s.rolling(window=w, min_periods=1)\<close> checks its window: pandas refuses a window below
  \<open>min_periods\<close> with ValueError, and a window of \<open>2\<^sup>6\<^sup>3\<close> or more does not fit the C
  integer the window is converted to (OverflowError).
\<close>

definition rolling_arg :: "int \<Rightarrow> error + nat" where
  "rolling_arg w =
     (if w < 1 then Inl ValueError
      else if 2 ^ 63 \<le> w then Inl OverflowError
      else Inr (nat w))"

text \<open>\<open>SmaCross.generate_signals\<close>: the signal column starts at 0, is set to 1 where
  the fast mean is above the slow one, then to -1 where it is below.\<close>

definition sma_signal :: "fl \<Rightarrow> fl \<Rightarrow> int" where
  "sma_signal sma_fast sma_slow =
     (let s0 = 0;
          s1 = (if fl_gt sma_fast sma_slow then 1 else s0)
      in if fl_lt sma_fast sma_slow then - 1 else s1)"

fun generate_signals :: "numerics \<Rightarrow> strategy \<Rightarrow> frame \<Rightarrow> error + (int \<times> int) list" where
  "generate_signals N (SmaCross f s) df =
     (case rolling_arg f of
        Inl e \<Rightarrow> Inl e
      | Inr w_fast \<Rightarrow>
          (let sma_fast = roll_mean N w_fast (map (\<lambda>(t, c). Fin c) df)
           in case rolling_arg s of
                Inl e \<Rightarrow> Inl e
              | Inr w_slow \<Rightarrow>
                  (let sma_slow = roll_mean N w_slow (map (\<lambda>(t, c). Fin c) df)
                   in Inr (map2 (\<lambda>(t, c) (a, b). (t, sma_signal a b)) df
                             (zip sma_fast sma_slow)))))"

subsection \<open>Position and return engine\<close>

text \<open>\<open>df.merge(sig, on='timestamp', how='left')\<close>: every row of \<open>df\<close> in order, once
  for each signal row with its timestamp, once with a missing signal if there is none.\<close>

definition merge_left :: "frame \<Rightarrow> (int \<times> int) list \<Rightarrow> (int \<times> real \<times> int option) list" where
  "merge_left df sig =
     concat (map (\<lambda>(t, c).
       (case filter (\<lambda>(t', s). t' = t) sig of
          [] \<Rightarrow> [(t, c, None)]
        | ms \<Rightarrow> map (\<lambda>(t', s). (t, c, Some s)) ms)) df)"

text \<open>The columns \<open>signal\<close>, \<open>position\<close>, \<open>ret\<close> and \<open>strategy_ret\<close> of the merged frame
  \<open>d\<close>, as \<open>run_backtest\<close> and \<open>run_walkforward\<close> compute them.\<close>

definition signal_col :: "(int \<times> real \<times> int option) list \<Rightarrow> int list" where
  "signal_col d = fillna0_int (map (\<lambda>(t, c, s). s) d)"

definition position_col :: "(int \<times> real \<times> int option) list \<Rightarrow> int list" where
  "position_col d = fillna0_int (shift1 (signal_col d))"

definition ret_col :: "(int \<times> real \<times> int option) list \<Rightarrow> fl list" where
  "ret_col d = fillna0 (pct_change (map (\<lambda>(t, c, s). Fin c) d))"

definition strategy_ret_col :: "(int \<times> real \<times> int option) list \<Rightarrow> fl list" where
  "strategy_ret_col d = map2 (\<lambda>p r. fl_mul (Fin (real_of_int p)) r) (position_col d) (ret_col d)"

subsection \<open>Metrics and backtest (utils.py)\<close>

record BacktestReport =
  total_return :: fl
  sharpe :: fl
  max_drawdown :: fl
  win_rate :: fl
  trades :: nat

text \<open>The first lines of \<open>compute_metrics\<close>: the Sharpe ratio of an equity curve.\<close>

definition sharpe_of :: "numerics \<Rightarrow> fl list \<Rightarrow> fl" where
  "sharpe_of N equity_curve =
     (let ret = fillna0 (pct_change equity_curve);
          vol = ser_std N ret
      in if fl_eq vol (Fin 0) \<or> isnan vol then Fin 0
         else fl_mul (fl_div (ser_mean N ret) vol) (fl_sqrt (Fin 252)))"

text \<open>\<open>compute_metrics\<close>; \<open>equity_curve.iloc[0]\<close> raises IndexError on an empty curve.\<close>

definition compute_metrics :: "numerics \<Rightarrow> fl list \<Rightarrow> fl list \<Rightarrow> error + BacktestReport" where
  "compute_metrics N equity_curve trade_returns =
     (let sharpe_v = sharpe_of N equity_curve
      in case equity_curve of
           [] \<Rightarrow> Inl IndexError
         | e0 # _ \<Rightarrow>
             (let cum = map (\<lambda>e. fl_div e e0) equity_curve;
                  roll_max = cummax cum;
                  dd = series_min (map2 (\<lambda>c m. fl_sub (fl_div c m) (Fin 1)) cum roll_max);
                  wins = length (filter (\<lambda>r. fl_gt r (Fin 0)) trade_returns);
                  n_trades = length trade_returns;
                  win_rate_v = (if n_trades > 0 then fl_div (Fin (real wins)) (Fin (real n_trades))
                                else Fin 0);
                  total_return_v = fl_sub (last cum) (Fin 1)
              in Inr \<lparr>total_return = total_return_v, sharpe = sharpe_v, max_drawdown = dd,
                       win_rate = win_rate_v, trades = n_trades\<rparr>))"

record backtest_result =
  report :: BacktestReport
  equity :: "fl list"
  timestamps :: "string list"

text \<open>\<open>run_backtest\<close>. The report is computed on line 80; the \<open>return\<close> on line 81 renders
  the timestamps first.\<close>

definition run_backtest ::
  "numerics \<Rightarrow> frame \<Rightarrow> string \<Rightarrow> params \<Rightarrow> error + backtest_result" where
  "run_backtest N df strategy_name params =
     (case create_strategy strategy_name params of
        Inl e \<Rightarrow> Inl e
      | Inr strat \<Rightarrow>
          (case generate_signals N strat df of
             Inl e \<Rightarrow> Inl e
           | Inr sig \<Rightarrow>
               (let d = merge_left df sig;
                    strategy_ret = strategy_ret_col d;
                    equity_v = cumprod (map (fl_add (Fin 1)) strategy_ret);
                    pos_change = diff_abs_fillna0 (position_col d);
                    trade_returns = map fst (filter (\<lambda>(r, c). c > 0) (zip strategy_ret pos_change))
                in case compute_metrics N equity_v trade_returns of
                     Inl e \<Rightarrow> Inl e
                   | Inr rep \<Rightarrow>
                       (case dt_isoformat (map fst d) of
                          Inl e \<Rightarrow> Inl e
                        | Inr tss \<Rightarrow> Inr \<lparr>report = rep, equity = equity_v, timestamps = tss\<rparr>))))"

subsection \<open>Walk-forward grid search (utils.py)\<close>

text \<open>\<open>_grid\<close>: the parameter space is a dict from names to candidate lists, written as
  the list of its items (keys distinct); the generator's output is the list it yields.\<close>

definition grid :: "(string \<times> pyval list) list \<Rightarrow> params list" where
  "grid param_space =
     (let keys = sort (map fst param_space);
          values = map (\<lambda>k. the (map_of param_space k)) keys
      in map (\<lambda>vals. zip keys vals) (product_lists values))"

text \<open>The body of the loop over the grid (lines 110 to 118): the in-sample Sharpe ratio
  of one parameter set.\<close>

definition insample_sharpe :: "numerics \<Rightarrow> string \<Rightarrow> params \<Rightarrow> frame \<Rightarrow> error + fl" where
  "insample_sharpe N strategy_name params is_df =
     (case create_strategy strategy_name params of
        Inl e \<Rightarrow> Inl e
      | Inr strat \<Rightarrow>
          (case generate_signals N strat is_df of
             Inl e \<Rightarrow> Inl e
           | Inr sig \<Rightarrow>
               (let d = merge_left is_df sig;
                    strategy_ret = strategy_ret_col d;
                    equity_v = cumprod (map (fl_add (Fin 1)) strategy_ret)
                in case compute_metrics N equity_v strategy_ret of
                     Inl e \<Rightarrow> Inl e
                   | Inr m \<Rightarrow> Inr (sharpe m))))"

text \<open>The loop over the grid, from the current \<open>(best_sharpe, best_params)\<close>.\<close>

fun grid_search ::
  "numerics \<Rightarrow> string \<Rightarrow> frame \<Rightarrow> fl \<times> params option \<Rightarrow> params list \<Rightarrow>
   error + (fl \<times> params option)" where
  "grid_search N strategy_name is_df best [] = Inr best"
| "grid_search N strategy_name is_df (best_sharpe, best_params) (params # rest) =
     (case insample_sharpe N strategy_name params is_df of
        Inl e \<Rightarrow> Inl e
      | Inr s \<Rightarrow>
          grid_search N strategy_name is_df
            (if fl_gt s best_sharpe then (s, Some params) else (best_sharpe, best_params)) rest)"

text \<open>\<open>best_params or {}\<close>: \<open>None\<close> and the empty dict both give the empty dict.\<close>

definition or_empty :: "params option \<Rightarrow> params" where
  "or_empty p = (case p of None \<Rightarrow> [] | Some q \<Rightarrow> q)"

record segment =
  is_range :: "int \<times> int"
  oos_range :: "int \<times> int"
  best_params :: "params option"
  best_is_sharpe :: fl

text \<open>
  One pass of the \<open>while\<close> loop on the windows \<open>is_df\<close> and \<open>oos_df\<close> (lines 107 to 132):
  the segment and what the pass appends to \<open>oos_returns\<close> and \<open>oos_timestamps\<close>. The
  returns are computed first (line 129), then the timestamps are rendered (line 131),
  then the segment is built (line 132), where \<open>.iloc[0]\<close> and \<open>.iloc[-1]\<close> raise
  IndexError on an empty window.
\<close>

definition wf_step ::
  "numerics \<Rightarrow> string \<Rightarrow> (string \<times> pyval list) list \<Rightarrow> frame \<Rightarrow> frame \<Rightarrow>
   error + (segment \<times> fl list \<times> string list)" where
  "wf_step N strategy_name param_space is_df oos_df =
     (case grid_search N strategy_name is_df (Fin (- 1000000000), None) (grid param_space) of
        Inl e \<Rightarrow> Inl e
      | Inr (best_sharpe, best_params_v) \<Rightarrow>
          (case create_strategy strategy_name (or_empty best_params_v) of
             Inl e \<Rightarrow> Inl e
           | Inr strat \<Rightarrow>
               (case generate_signals N strat oos_df of
                  Inl e \<Rightarrow> Inl e
                | Inr sig \<Rightarrow>
                    (let d2 = merge_left oos_df sig;
                         strategy_ret = strategy_ret_col d2
                     in case dt_isoformat (map fst d2) of
                          Inl e \<Rightarrow> Inl e
                        | Inr tss \<Rightarrow>
                            if is_df = [] \<or> oos_df = [] then Inl IndexError
                            else Inr (\<lparr>is_range = (fst (hd is_df), fst (last is_df)),
                                        oos_range = (fst (hd oos_df), fst (last oos_df)),
                                        best_params = best_params_v,
                                        best_is_sharpe = best_sharpe\<rparr>,
                                      strategy_ret, tss)))))"

text \<open>The \<open>while True\<close> loop of \<open>run_walkforward\<close>, from cursor \<open>i\<close> with the lists
  \<open>results\<close>, \<open>oos_returns\<close> and \<open>oos_timestamps\<close> accumulated so far. The window
  lengths are natural numbers (the service admits only values \<open>\<ge> 1\<close>).\<close>

function wf_loop ::
  "numerics \<Rightarrow> frame \<Rightarrow> string \<Rightarrow> (string \<times> pyval list) list \<Rightarrow> nat \<Rightarrow> nat \<Rightarrow> nat \<Rightarrow>
   segment list \<Rightarrow> fl list \<Rightarrow> string list \<Rightarrow>
   error + (segment list \<times> fl list \<times> string list)" where
  "wf_loop N df strategy_name param_space insample_days outsample_days i results oos_returns
     oos_timestamps =
     (if i + insample_days + outsample_days > length df
      then Inr (results, oos_returns, oos_timestamps)
      else (case wf_step N strategy_name param_space
                   (iloc df i (i + insample_days))
                   (iloc df (i + insample_days) (i + insample_days + outsample_days)) of
              Inl e \<Rightarrow> Inl e
            | Inr (seg, rets, tss) \<Rightarrow>
                wf_loop N df strategy_name param_space insample_days outsample_days
                  (i + outsample_days) (results @ [seg]) (oos_returns @ rets)
                  (oos_timestamps @ tss)))"
  by pat_completeness auto
termination
proof (relation "measure (\<lambda>(N, df, n, ps, ins, outs, i, r, a, b). Suc (length df) - (i + ins + outs))")
  show "wf (measure (\<lambda>(N, df, n, ps, ins, outs, i, r, a, b). Suc (length df) - (i + ins + outs)))"
    by simp
next
  fix N :: "numerics" and df :: frame and strategy_name param_space
    and insample_days outsample_days i :: nat
    and results :: "segment list" and oos_returns :: "fl list"
    and oos_timestamps :: "string list" and x2 x y xa ya
  assume le: "\<not> length df < i + insample_days + outsample_days"
    and step: "wf_step N strategy_name param_space (iloc df i (i + insample_days))
        (iloc df (i + insample_days) (i + insample_days + outsample_days)) = Inr x2"
  from step have "iloc df (i + insample_days) (i + insample_days + outsample_days) \<noteq> []"
    by (auto simp: wf_step_def Let_def split: sum.splits prod.splits if_splits)
  then have "0 < outsample_days"
    by (cases "outsample_days = 0") (auto simp: iloc_def)
  with le show "((N, df, strategy_name, param_space, insample_days, outsample_days,
        i + outsample_days, results @ [x], oos_returns @ xa, oos_timestamps @ ya),
       (N, df, strategy_name, param_space, insample_days, outsample_days, i, results,
        oos_returns, oos_timestamps))
      \<in> measure (\<lambda>(N, df, n, ps, ins, outs, i, r, a, b). Suc (length df) - (i + ins + outs))"
    by simp
qed

record wf_result =
  segments :: "segment list"
  oos :: "(BacktestReport \<times> string list) option"
  overfit_risk :: "fl option"

text \<open>The overfit risk score from the out-of-sample Sharpe ratio and the in-sample ones
  (lines 138 to 141); the literal \<open>1e-9\<close> is the float64 number nearest to \<open>10\<^sup>-\<^sup>9\<close>.\<close>

definition overfit_risk_of :: "fl \<Rightarrow> fl list \<Rightarrow> error + fl" where
  "overfit_risk_of oos_sharpe is_sharpes =
     (let median_is = (if is_sharpes \<noteq> [] then np_median is_sharpes else Fin 0)
      in case py_div oos_sharpe (fl_add (fl_abs median_is) (round64 (1 / 1000000000))) of
           Inl e \<Rightarrow> Inl e
         | Inr q \<Rightarrow> Inr (py_max (Fin 0) (fl_sub (Fin 1) q)))"

text \<open>\<open>run_walkforward\<close>. \<open>sort_values\<close> is modelled by a stable sort; pandas leaves the
  order of rows with equal timestamps open.\<close>

definition run_walkforward ::
  "numerics \<Rightarrow> frame \<Rightarrow> string \<Rightarrow> (string \<times> pyval list) list \<Rightarrow> nat \<Rightarrow> nat \<Rightarrow>
   error + wf_result" where
  "run_walkforward N df strategy_name param_space insample_days outsample_days =
     (case wf_loop N (sort_key fst df) strategy_name param_space insample_days outsample_days
             0 [] [] [] of
        Inl e \<Rightarrow> Inl e
      | Inr (results, oos_returns, oos_timestamps) \<Rightarrow>
          if length oos_returns = 0
          then Inr \<lparr>segments = results, oos = None, overfit_risk = None\<rparr>
          else (let oos_eq = cumprod (map (fl_add (Fin 1)) (fillna0 oos_returns))
                in case compute_metrics N oos_eq (fillna0 oos_returns) of
                     Inl e \<Rightarrow> Inl e
                   | Inr oos_report \<Rightarrow>
                       (case overfit_risk_of (sharpe oos_report) (map best_is_sharpe results) of
                          Inl e \<Rightarrow> Inl e
                        | Inr risk \<Rightarrow>
                            Inr \<lparr>segments = results,
                                  oos = Some (oos_report, oos_timestamps),
                                  overfit_risk = Some risk\<rparr>)))"

section \<open>Properties\<close>

declare wf_loop.simps [simp del]


subsection \<open>Positions lag the signals\<close>

lemma length_shift1 [simp]: "length (shift1 xs) = length xs"
  by (cases xs) (simp_all add: shift1_def)

lemma length_fillna0_int [simp]: "length (fillna0_int xs) = length xs"
  by (simp add: fillna0_int_def)

lemma length_signal_col [simp]: "length (signal_col d) = length d"
  by (simp add: signal_col_def)

lemma length_position_col [simp]: "length (position_col d) = length d"
  by (simp add: position_col_def)

lemma position_col_0: "d \<noteq> [] \<Longrightarrow> position_col d ! 0 = 0"
  by (cases d) (simp_all add: position_col_def shift1_def signal_col_def fillna0_int_def)

lemma shift1_fillna0_nth:
  assumes "Suc t < length xs"
  shows "fillna0_int (shift1 xs) ! Suc t = xs ! t"
proof -
  from assms obtain y ys where xs: "xs = y # ys" by (cases xs) auto
  have len: "t < length (butlast xs)" using assms by simp
  have "fillna0_int (shift1 xs) ! Suc t = map (\<lambda>x. case x of None \<Rightarrow> 0 | Some v \<Rightarrow> v) (map Some (butlast xs)) ! t"
    unfolding xs by (simp add: shift1_def fillna0_int_def del: butlast.simps)
  also have "\<dots> = butlast xs ! t" using len by (simp del: butlast.simps)
  also have "\<dots> = xs ! t" using len by (simp add: nth_butlast)
  finally show ?thesis .
qed

lemma position_col_Suc:
  "Suc t < length d \<Longrightarrow> position_col d ! Suc t = signal_col d ! t"
  by (simp add: position_col_def shift1_fillna0_nth)

lemma merge_left_rows:
  "(t, c, s) \<in> set (merge_left df sig) \<Longrightarrow>
     (t, c) \<in> set df \<and> (case s of None \<Rightarrow> t \<notin> fst ` set sig | Some v \<Rightarrow> (t, v) \<in> set sig)"
proof -
  assume "(t, c, s) \<in> set (merge_left df sig)"
  then obtain t0 c0 where in_df: "(t0, c0) \<in> set df"
    and row: "(t, c, s) \<in> set (case filter (\<lambda>(t', s). t' = t0) sig of
          [] \<Rightarrow> [(t0, c0, None)]
        | ms \<Rightarrow> map (\<lambda>(t', s). (t0, c0, Some s)) ms)"
    by (auto simp: merge_left_def)
  show ?thesis
  proof (cases "filter (\<lambda>(t', s). t' = t0) sig")
    case Nil
    then have "t0 \<notin> fst ` set sig" by (auto simp: filter_empty_conv)
    with Nil row in_df show ?thesis by auto
  next
    case (Cons m ms)
    with row obtain t' v where "(t', v) \<in> set (filter (\<lambda>(t', s). t' = t0) sig)" "t = t0" "c = c0" "s = Some v"
      by (auto split: prod.splits)
    with in_df show ?thesis by auto
  qed
qed

lemma merge_left_unmatched_signal:
  assumes "j < length (merge_left df sig)" "fst (merge_left df sig ! j) \<notin> fst ` set sig"
  shows "signal_col (merge_left df sig) ! j = 0"
proof -
  obtain t c s where row: "merge_left df sig ! j = (t, c, s)" by (cases "merge_left df sig ! j")
  with assms(1) have "(t, c, s) \<in> set (merge_left df sig)" by (metis nth_mem)
  from merge_left_rows[OF this] assms(2) row have "s = None"
    by (cases s) (auto simp: image_iff)
  with row assms(1) show ?thesis by (simp add: signal_col_def fillna0_int_def)
qed

lemma merge_left_keeps_rows:
  assumes "distinct (map fst sig)"
  shows "map (\<lambda>(t, c, s). (t, c)) (merge_left df sig) = df"
proof -
  have one: "\<And>t. length (filter (\<lambda>(t', s). t' = t) sig) \<le> 1"
    using assms by (induction sig) (auto simp: filter_empty_conv image_iff)
  show ?thesis
  proof (induction df)
    case Nil
    show ?case by (simp add: merge_left_def)
  next
    case (Cons r df)
    obtain t c where r: "r = (t, c)" by (cases r)
    have "map (\<lambda>(t, c, s). (t, c)) (case filter (\<lambda>(t', s). t' = t) sig of
          [] \<Rightarrow> [(t, c, None)]
        | ms \<Rightarrow> map (\<lambda>(t', s). (t, c, Some s)) ms) = [(t, c)]"
    proof (cases "filter (\<lambda>(t', s). t' = t) sig")
      case Nil then show ?thesis by simp
    next
      case (Cons m ms)
      with one[of t] have "ms = []" by simp
      with Cons show ?thesis by (simp split: prod.splits)
    qed
    with Cons r show ?case by (simp add: merge_left_def)
  qed
qed

lemma merge_left_nonempty: "df \<noteq> [] \<Longrightarrow> merge_left df sig \<noteq> []"
  by (cases df) (auto simp: merge_left_def split: list.splits)

text \<open>
  Claim C5. For every price frame and every signal frame a strategy may return, the
  position column of the merged frame has the length of the frame, is 0 at the first
  period and is the signal of the period before at every later one; a row whose
  timestamp has no signal row gets the signal 0; and when the signal frame has no
  timestamp twice, the merged frame has exactly the price rows, in order.
\<close>

theorem position_lag_invariant:
  "length (position_col (merge_left df sig)) = length (merge_left df sig) \<and>
   (df \<noteq> [] \<longrightarrow> merge_left df sig \<noteq> [] \<and> position_col (merge_left df sig) ! 0 = 0) \<and>
   (\<forall>t. 0 < t \<and> t < length (merge_left df sig) \<longrightarrow>
        position_col (merge_left df sig) ! t = signal_col (merge_left df sig) ! (t - 1)) \<and>
   (\<forall>j < length (merge_left df sig).
        fst (merge_left df sig ! j) \<notin> fst ` set sig \<longrightarrow> signal_col (merge_left df sig) ! j = 0) \<and>
   (distinct (map fst sig) \<longrightarrow> map (\<lambda>(t, c, s). (t, c)) (merge_left df sig) = df)"
proof (intro conjI allI impI)
  fix t assume "0 < t \<and> t < length (merge_left df sig)"
  then obtain k where "t = Suc k" "Suc k < length (merge_left df sig)"
    by (cases t) auto
  then show "position_col (merge_left df sig) ! t = signal_col (merge_left df sig) ! (t - 1)"
    by (simp add: position_col_Suc)
qed (simp_all add: merge_left_nonempty position_col_0 merge_left_unmatched_signal
       merge_left_keeps_rows)

theorem position_lag_invariant_witness:
  "[(1, 100), (2, 101), (3, 99)] \<noteq> ([] :: frame) \<and>
   distinct (map fst [(1 :: int, 1 :: int), (3, - 1)]) \<and>
   (2 :: int) \<notin> fst ` set [(1 :: int, 1 :: int), (3, - 1)] \<and>
   merge_left [(1, 100), (2, 101), (3, 99)] [(1, 1), (3, - 1)] =
     [(1, 100, Some 1), (2, 101, None), (3, 99, Some (- 1))] \<and>
   signal_col (merge_left [(1, 100), (2, 101), (3, 99)] [(1, 1), (3, - 1)]) = [1, 0, - 1] \<and>
   position_col (merge_left [(1, 100), (2, 101), (3, 99)] [(1, 1), (3, - 1)]) ! 0 = 0 \<and>
   position_col (merge_left [(1, 100), (2, 101), (3, 99)] [(1, 1), (3, - 1)]) ! 1 = 1 \<and>
   position_col (merge_left [(1, 100), (2, 101), (3, 99)] [(1, 1), (3, - 1)]) ! 2 = 0"
  using position_lag_invariant [of "[(1, 100), (2, 101), (3, 99)]" "[(1, 1), (3, - 1)]"]
  by (simp add: merge_left_def signal_col_def position_col_def shift1_def fillna0_int_def)


subsection \<open>Rounding leaves a float64 number as it is\<close>

lemma round_even_of_int: "round_even (of_int m) = m"
  by (simp add: round_even_def)

lemma round64_normal:
  assumes "x \<noteq> 0" and lo: "2 powr of_int e \<le> \<bar>x\<bar>" and hi: "\<bar>x\<bar> < 2 powr of_int (e + 1)"
    and "- 1022 \<le> e" and "e \<le> 1023" and m: "x / 2 powr (of_int e - 52) = of_int m"
  shows "round64 x = Fin x"
proof -
  have fl: "\<lfloor>log 2 \<bar>x\<bar>\<rfloor> = e"
    using assms by (subst floor_log_eq_powr_iff) auto
  have mx: "max e (- 1022) = e" using assms by simp
  have y: "of_int m * 2 powr (of_int e - 52) = x"
    using m by (simp add: field_simps)
  have "2 powr of_int (e + 1) \<le> (2::real) powr 1024"
    using assms by (intro powr_mono) auto
  then have "\<bar>x\<bar> < 2 ^ 1024" using hi by simp
  then show ?thesis
    using assms(1) by (simp add: round64_def fl mx Let_def m round_even_of_int y)
qed

lemma round64_subnormal:
  assumes "x \<noteq> 0" and hi: "\<bar>x\<bar> < 2 powr (- 1022)" and m: "x / 2 powr (- 1074) = of_int m"
  shows "round64 x = Fin x"
proof -
  have "\<lfloor>log 2 \<bar>x\<bar>\<rfloor> < - 1022"
  proof -
    have "log 2 \<bar>x\<bar> < log 2 (2 powr (- 1022))"
      using assms by (subst log_less_cancel_iff) auto
    then show ?thesis by (simp add: floor_less_iff)
  qed
  then have mx: "max \<lfloor>log 2 \<bar>x\<bar>\<rfloor> (- 1022) = - 1022" by simp
  have y: "of_int m * 2 powr (- 1074) = x"
    using m by (simp add: field_simps)
  have "(2::real) powr (- 1022) \<le> 2 powr 1024"
    by (intro powr_mono) auto
  then have "\<bar>x\<bar> < 2 ^ 1024" using hi by simp
  then show ?thesis
    using assms(1) by (simp add: round64_def mx Let_def m round_even_of_int y)
qed

text \<open>Every integer below \<open>2\<^sup>5\<^sup>3\<close> in magnitude is a float64 number.\<close>

lemma round64_of_int:
  assumes "\<bar>n\<bar> < 2 ^ 53"
  shows "round64 (of_int n) = Fin (of_int n)"
proof (cases "n = 0")
  case True
  then show ?thesis by (simp add: round64_def)
next
  case False
  define x :: real where "x = of_int n"
  define e where "e = \<lfloor>log 2 \<bar>x\<bar>\<rfloor>"
  have x0: "x \<noteq> 0" and x1: "1 \<le> \<bar>x\<bar>" using False by (auto simp: x_def)
  have xa: "\<bar>x\<bar> = of_int \<bar>n\<bar>" by (simp add: x_def)
  have b: "2 powr of_int e \<le> \<bar>x\<bar>" "\<bar>x\<bar> < 2 powr of_int (e + 1)"
    using floor_log_eq_powr_iff [of "\<bar>x\<bar>" 2 e] x0 by (auto simp: e_def)
  have e0: "0 \<le> e" using x1 by (simp add: e_def)
  have "\<bar>x\<bar> < 2 ^ 53" using assms unfolding xa
    by (metis of_int_less_iff of_int_numeral of_int_power)
  then have "2 powr of_int e < (2::real) powr 53" using b(1) by simp
  then have "real_of_int e < 53" by (rule powr_less_cancel) simp
  then have e52: "e \<le> 52" by simp
  obtain k :: nat where k: "52 - e = int k"
    using e52 by (metis diff_ge_0_iff_ge nonneg_int_cases)
  have ek: "real_of_int e - 52 = - real k"
    using k by linarith
  have pw: "(2::real) powr (of_int e - 52) = 1 / 2 ^ k"
    unfolding ek by (simp add: powr_minus_divide powr_realpow)
  have m: "x / 2 powr (of_int e - 52) = of_int (n * 2 ^ k)"
    by (simp add: pw x_def)
  show ?thesis
    using round64_normal [OF x0 b _ _ m] e0 e52 by (simp add: x_def)
qed

lemma round64_0 [simp]: "round64 0 = Fin 0"
  by (simp add: round64_def)

lemma round64_1 [simp]: "round64 1 = Fin 1"
  using round64_of_int [of 1] by simp

lemma round64_numeral:
  "(numeral w :: int) < 2 ^ 53 \<Longrightarrow> round64 (numeral w) = Fin (numeral w)"
  using round64_of_int [of "numeral w"] by simp

lemma round64_neg_numeral:
  "(numeral w :: int) < 2 ^ 53 \<Longrightarrow> round64 (- numeral w) = Fin (- numeral w)"
  using round64_of_int [of "- numeral w"] by simp

lemma round64_neg_1 [simp]: "round64 (- 1) = Fin (- 1)"
  using round64_of_int [of "- 1"] by simp


subsection \<open>The pipeline up to the metrics does not fail\<close>

lemma length_pct_change [simp]: "length (pct_change xs) = length xs"
  by (cases xs) simp_all

lemma length_fillna0 [simp]: "length (fillna0 xs) = length xs"
  by (simp add: fillna0_def)

lemma length_ret_col [simp]: "length (ret_col d) = length d"
  by (simp add: ret_col_def)

lemma length_strategy_ret_col [simp]: "length (strategy_ret_col d) = length d"
  by (simp add: strategy_ret_col_def)

lemma length_cumprod_from [simp]: "length (cumprod_from acc xs) = length xs"
  by (induction xs arbitrary: acc) (simp_all add: Let_def)

lemma length_cumprod [simp]: "length (cumprod xs) = length xs"
  by (simp add: cumprod_def)

lemma compute_metrics_cases:
  "compute_metrics N eq tr = Inl IndexError \<and> eq = [] \<or>
   (\<exists>m. compute_metrics N eq tr = Inr m \<and> eq \<noteq> [] \<and> sharpe m = sharpe_of N eq)"
  by (auto simp: compute_metrics_def Let_def split: list.splits)

lemma compute_metrics_error_iff:
  "(compute_metrics N eq tr = Inl e) = (eq = [] \<and> e = IndexError)"
  by (auto simp: compute_metrics_def Let_def split: list.splits)

lemma sharpe_compute_metrics:
  "compute_metrics N eq tr = Inr m \<Longrightarrow> sharpe m = sharpe_of N eq"
  by (auto simp: compute_metrics_def Let_def split: list.splits)

lemma rolling_arg_Inr: "1 \<le> w \<Longrightarrow> w < 2 ^ 63 \<Longrightarrow> rolling_arg w = Inr (nat w)"
  by (simp add: rolling_arg_def)

lemma SmaCross_init_windows:
  "SmaCross_init a b = Inr (SmaCross f s) \<Longrightarrow> 1 \<le> f \<and> 1 \<le> s"
  by (cases "(a, b)" rule: SmaCross_init.cases) (auto split: if_splits)

lemma create_strategy_windows:
  "create_strategy name c = Inr (SmaCross f s) \<Longrightarrow> 1 \<le> f \<and> 1 \<le> s"
  unfolding create_strategy_def
  by (auto split: if_splits dest: SmaCross_init_windows)

lemma generate_signals_Inr:
  assumes "1 \<le> f" "f < 2 ^ 63" "1 \<le> s" "s < 2 ^ 63"
  shows "generate_signals N (SmaCross f s) df =
           Inr (map2 (\<lambda>(t, c) (a, b). (t, sma_signal a b)) df
                  (zip (roll_mean N (nat f) (map (\<lambda>(t, c). Fin c) df))
                       (roll_mean N (nat s) (map (\<lambda>(t, c). Fin c) df))))"
  using assms by (simp add: rolling_arg_Inr)

lemma generate_signals_overflow:
  "1 \<le> f \<Longrightarrow> 2 ^ 63 \<le> f \<or> 1 \<le> s \<and> 2 ^ 63 \<le> s \<Longrightarrow>
     generate_signals N (SmaCross f s) df = Inl OverflowError"
  by (auto simp: rolling_arg_def Let_def)

declare generate_signals.simps [simp del]

text \<open>A parameter set is usable when it builds a strategy whose windows the rolling
  means accept.\<close>

lemma insample_sharpe_total:
  assumes "create_strategy name c = Inr (SmaCross f s)" "f < 2 ^ 63" "s < 2 ^ 63" "is_df \<noteq> []"
  shows "\<exists>v. insample_sharpe N name c is_df = Inr v"
proof -
  from create_strategy_windows [OF assms(1)] have w: "1 \<le> f" "1 \<le> s" by simp_all
  let ?sig = "map2 (\<lambda>(t, c) (a, b). (t, sma_signal a b)) is_df
                  (zip (roll_mean N (nat f) (map (\<lambda>(t, c). Fin c) is_df))
                       (roll_mean N (nat s) (map (\<lambda>(t, c). Fin c) is_df)))"
  let ?d = "merge_left is_df ?sig"
  let ?eq = "cumprod (map (fl_add (Fin 1)) (strategy_ret_col ?d))"
  have "?d \<noteq> []" using assms(4) by (rule merge_left_nonempty)
  moreover have "length ?eq = length ?d" by simp
  ultimately have "?eq \<noteq> []" by (metis length_0_conv)
  then obtain m where "compute_metrics N ?eq (strategy_ret_col ?d) = Inr m"
    using compute_metrics_cases [of N ?eq "strategy_ret_col ?d"] by auto
  then show ?thesis
    using assms w by (simp add: insample_sharpe_def generate_signals_Inr Let_def)
qed

lemma grid_search_total:
  assumes "\<forall>c \<in> set cands. \<exists>v. insample_sharpe N name c is_df = Inr v"
  shows "\<exists>bs bp. grid_search N name is_df (b0, p0) cands = Inr (bs, bp) \<and>
           (bp = p0 \<or> bp \<in> Some ` set cands)"
  using assms
proof (induction cands arbitrary: b0 p0)
  case Nil
  then show ?case by simp
next
  case (Cons c cands)
  from Cons.prems obtain v where v: "insample_sharpe N name c is_df = Inr v" by auto
  from Cons.prems have rest: "\<forall>c \<in> set cands. \<exists>v. insample_sharpe N name c is_df = Inr v"
    by simp
  show ?case
  proof (cases "fl_gt v b0")
    case True
    from Cons.IH [OF rest, of v "Some c"] True v show ?thesis by auto
  next
    case False
    from Cons.IH [OF rest, of b0 p0] False v show ?thesis by auto
  qed
qed

subsection \<open>Every pass of the walk-forward loop raises\<close>

text \<open>No pass of the loop returns: the rendering of the timestamps on line 131 stands
  between the out-of-sample returns and the segment.\<close>

lemma wf_step_never_returns: "wf_step N name ps is_df oos_df \<noteq> Inr x"
  by (simp add: wf_step_def dt_isoformat_def Let_def split: sum.splits prod.splits)

lemma create_default: "create_strategy ''sma_cross'' [] = Inr (SmaCross 10 30)"
  by (simp add: create_strategy_def)


lemma wf_step_attribute_error:
  assumes cands: "\<forall>c \<in> set (grid ps). \<exists>f s.
        create_strategy ''sma_cross'' c = Inr (SmaCross f s) \<and> f < 2 ^ 63 \<and> s < 2 ^ 63"
    and "is_df \<noteq> []"
  shows "wf_step N ''sma_cross'' ps is_df oos_df = Inl AttributeError"
proof -
  have "\<forall>c \<in> set (grid ps). \<exists>v. insample_sharpe N ''sma_cross'' c is_df = Inr v"
  proof
    fix c assume "c \<in> set (grid ps)"
    with cands obtain f s where "create_strategy ''sma_cross'' c = Inr (SmaCross f s)"
      "f < 2 ^ 63" "s < 2 ^ 63" by blast
    then show "\<exists>v. insample_sharpe N ''sma_cross'' c is_df = Inr v"
      using assms(2) by (rule insample_sharpe_total)
  qed
  from grid_search_total [OF this, of "Fin (- 1000000000)" None]
  obtain bs bp where gs: "grid_search N ''sma_cross'' is_df (Fin (- 1000000000), None) (grid ps)
      = Inr (bs, bp)" and bp: "bp = None \<or> bp \<in> Some ` set (grid ps)"
    by auto
  have "\<exists>f s. create_strategy ''sma_cross'' (or_empty bp) = Inr (SmaCross f s) \<and>
          f < 2 ^ 63 \<and> s < 2 ^ 63"
    using bp cands by (auto simp: or_empty_def create_default)
  then obtain f s where st: "create_strategy ''sma_cross'' (or_empty bp) = Inr (SmaCross f s)"
    and w: "f < 2 ^ 63" "s < 2 ^ 63" by auto
  from create_strategy_windows [OF st] have w1: "1 \<le> f" "1 \<le> s" by simp_all
  show ?thesis
    unfolding wf_step_def
    by (simp add: gs st generate_signals_Inr [OF w1(1) w(1) w1(2) w(2)] dt_isoformat_def Let_def)
qed

lemma run_walkforward_attribute_error:
  assumes cands: "\<forall>c \<in> set (grid ps). \<exists>f s.
        create_strategy ''sma_cross'' c = Inr (SmaCross f s) \<and> f < 2 ^ 63 \<and> s < 2 ^ 63"
    and "1 \<le> insample_days" and "insample_days + outsample_days \<le> length df"
  shows "run_walkforward N df ''sma_cross'' ps insample_days outsample_days = Inl AttributeError"
proof -
  let ?S = "sort_key fst df"
  have "length ?S = length df" by simp
  then have "iloc ?S 0 (0 + insample_days) \<noteq> []"
    using assms(2,3) by (cases ?S) (simp_all add: iloc_def)
  from wf_step_attribute_error [OF cands this]
  have "wf_loop N ?S ''sma_cross'' ps insample_days outsample_days 0 [] [] []
          = Inl AttributeError"
    using assms(3) by (subst wf_loop.simps) simp
  then show ?thesis by (simp add: run_walkforward_def)
qed

text \<open>So the only result \<open>run_walkforward\<close> ever returns is the one without segments, on
  a series too short for one pair of windows.\<close>

lemma run_walkforward_returns_only_empty:
  assumes "run_walkforward N df name ps insample_days outsample_days = Inr r"
  shows "r = \<lparr>segments = [], oos = None, overfit_risk = None\<rparr> \<and>
         length df < insample_days + outsample_days"
proof (cases "length df < insample_days + outsample_days")
  case True
  then have "wf_loop N (sort_key fst df) name ps insample_days outsample_days 0 [] [] []
          = Inr ([], [], [])"
    by (subst wf_loop.simps) simp
  with assms True show ?thesis by (simp add: run_walkforward_def)
next
  case False
  let ?step = "wf_step N name ps (iloc (sort_key fst df) 0 (0 + insample_days))
      (iloc (sort_key fst df) (0 + insample_days) (0 + insample_days + outsample_days))"
  obtain e where e: "?step = Inl e"
    using wf_step_never_returns [of N name ps] by (cases ?step) auto
  have "wf_loop N (sort_key fst df) name ps insample_days outsample_days 0 [] [] [] = Inl e"
    using False e by (subst wf_loop.simps) simp
  with assms show ?thesis by (simp add: run_walkforward_def)
qed

lemma run_backtest_never_returns: "run_backtest N df name params \<noteq> Inr r"
  by (simp add: run_backtest_def dt_isoformat_def Let_def split: sum.splits)


subsection \<open>A series shorter than one pair of windows\<close>

text \<open>
  Claim C8. When the series has fewer than \<open>insample_days + outsample_days\<close> rows,
  \<open>run_walkforward\<close> returns the result with no segment, no out-of-sample report and no
  overfit risk, whatever the strategy name and the parameter space.
\<close>

theorem short_series_no_segments:
  assumes "length df < insample_days + outsample_days"
  shows "run_walkforward N df strategy_name param_space insample_days outsample_days =
           Inr \<lparr>segments = [], oos = None, overfit_risk = None\<rparr>"
proof -
  have "wf_loop N (sort_key fst df) strategy_name param_space insample_days outsample_days
          0 [] [] [] = Inr ([], [], [])"
    using assms by (subst wf_loop.simps) simp
  then show ?thesis by (simp add: run_walkforward_def)
qed

theorem short_series_no_segments_witness:
  "length [(1 :: int, 100 :: real), (2, 101), (3, 99)] < 3 + 1 \<and>
   run_walkforward plain_numerics [(1, 100), (2, 101), (3, 99)] ''sma_cross''
       [(''fast'', [PyInt 1, PyInt 2]), (''slow'', [PyInt 3])] 3 1 =
     Inr \<lparr>segments = [], oos = None, overfit_risk = None\<rparr>"
proof -
  have h: "length [(1 :: int, 100 :: real), (2, 101), (3, 99)] < 3 + 1" by simp
  show ?thesis using h short_series_no_segments [OF h] by simp
qed


subsection \<open>The windows of the walk-forward loop\<close>

lemmas grid_eval = grid_def create_strategy_def Let_def

text \<open>
  Claim C1. The specification expects, for windows of 3 and 1 rows on a series of 6
  rows, three segments (cursor offsets 0, 1, 2) and three out-of-sample periods. The loop
  does cut the first pair of windows as stated, \<open>series[0:3]\<close> and \<open>series[3:4]\<close>, but
  the pass on them raises AttributeError where it renders the out-of-sample timestamps
  (line 131), before the segment is appended: the run ends there and no segment is ever
  produced, whatever the numerics.
\<close>

theorem walkforward_six_rows_raises:
  "run_walkforward N [(1, 100), (2, 101), (3, 102), (4, 103), (5, 104), (6, 105)] ''sma_cross''
       [(''fast'', [PyInt 1, PyInt 2]), (''slow'', [PyInt 2, PyInt 3])] 3 1 =
     Inl AttributeError"
  by (rule run_walkforward_attribute_error) (simp_all add: grid_eval)

subsection \<open>The backtest of a window\<close>

lemma run_backtest_attribute_error:
  assumes "create_strategy name params = Inr (SmaCross f s)" "f < 2 ^ 63" "s < 2 ^ 63" "df \<noteq> []"
  shows "run_backtest N df name params = Inl AttributeError"
proof -
  from create_strategy_windows [OF assms(1)] have w: "1 \<le> f" "1 \<le> s" by simp_all
  let ?sig = "map2 (\<lambda>(t, c) (a, b). (t, sma_signal a b)) df
                  (zip (roll_mean N (nat f) (map (\<lambda>(t, c). Fin c) df))
                       (roll_mean N (nat s) (map (\<lambda>(t, c). Fin c) df)))"
  let ?d = "merge_left df ?sig"
  let ?sr = "strategy_ret_col ?d"
  let ?eq = "cumprod (map (fl_add (Fin 1)) ?sr)"
  let ?tr = "map fst (filter (\<lambda>(r, c). c > 0) (zip ?sr (diff_abs_fillna0 (position_col ?d))))"
  have "?d \<noteq> []" using assms(4) by (rule merge_left_nonempty)
  moreover have "length ?eq = length ?d" by simp
  ultimately have "?eq \<noteq> []" by (metis length_0_conv)
  then obtain m where "compute_metrics N ?eq ?tr = Inr m"
    using compute_metrics_cases [of N ?eq ?tr] by auto
  then show ?thesis
    using assms w by (simp add: run_backtest_def generate_signals_Inr Let_def dt_isoformat_def)
qed

text \<open>The Sharpe ratio of a report depends on the equity curve alone: the report that
  \<open>run_backtest\<close> computes on line 80 holds the Sharpe ratio the grid loop records.\<close>

lemma report_sharpe_agrees:
  "compute_metrics N eq tr = Inr m \<Longrightarrow> compute_metrics N eq tr' = Inr m' \<Longrightarrow>
     sharpe m = sharpe m'"
  by (simp add: sharpe_compute_metrics)

text \<open>
  Claim C6. The grid loop of \<open>run_walkforward\<close> records a Sharpe ratio for the window,
  here of four rows with the parameters \<open>fast = 1\<close>, \<open>slow = 2\<close>; \<open>run_backtest\<close> on the
  same window, strategy name and parameters computes its report and then raises
  AttributeError on its \<open>return\<close> line (line 81), so that it returns no report whose
  Sharpe ratio could be compared.
\<close>

theorem backtest_of_window_raises:
  "run_backtest N [(1, 100), (2, 100), (3, 100), (4, 100)] ''sma_cross''
       [(''fast'', PyInt 1), (''slow'', PyInt 2)] = Inl AttributeError \<and>
   (\<exists>v. insample_sharpe N ''sma_cross'' [(''fast'', PyInt 1), (''slow'', PyInt 2)]
          [(1, 100), (2, 100), (3, 100), (4, 100)] = Inr v)"
proof
  show "run_backtest N [(1, 100), (2, 100), (3, 100), (4, 100)] ''sma_cross''
       [(''fast'', PyInt 1), (''slow'', PyInt 2)] = Inl AttributeError"
    by (rule run_backtest_attribute_error [of _ _ 1 2]) (simp_all add: create_strategy_def)
  show "\<exists>v. insample_sharpe N ''sma_cross'' [(''fast'', PyInt 1), (''slow'', PyInt 2)]
          [(1, 100), (2, 100), (3, 100), (4, 100)] = Inr v"
    by (rule insample_sharpe_total [of _ _ 1 2]) (simp_all add: create_strategy_def)
qed

subsection \<open>The overfit risk\<close>

text \<open>
  Claim C7. The specification expects an overfit risk as soon as one out-of-sample period
  exists. On a series of 6 rows with windows of 3 and 3 rows one pair of windows fits,
  but the pass that would produce the out-of-sample period raises AttributeError (line
  131): lines 134 to 142 are not reached and no overfit risk is reported.
\<close>

theorem overfit_risk_never_reported:
  "run_walkforward N [(1, 100), (2, 110), (3, 121), (4, 100), (5, 90), (6, 99)] ''sma_cross''
       [(''fast'', [PyInt 1]), (''slow'', [PyInt 2])] 3 3 = Inl AttributeError"
  by (rule run_walkforward_attribute_error) (simp_all add: grid_eval)

subsection \<open>The first out-of-sample return of a window\<close>

text \<open>The position of the first row is 0 and its return is 0 (the missing change filled
  with 0), so the first strategy return of a merged frame is 0.\<close>

lemma hd_strategy_ret_col:
  assumes "d \<noteq> []"
  shows "hd (strategy_ret_col d) = Fin 0"
proof -
  obtain r rs where d: "d = r # rs" using assms by (cases d) auto
  obtain t c s where r: "r = (t, c, s)" by (cases r)
  show ?thesis
    by (simp add: d r strategy_ret_col_def position_col_def shift1_def signal_col_def
        fillna0_int_def ret_col_def fillna0_def)
qed

text \<open>
  Claim C10. In the first pass on a series of 5 rows with windows of 2 and 1 rows, the
  out-of-sample window is the one row \<open>(3, 102)\<close>; the strategy returns computed for it
  on line 129 are \<open>[0]\<close>, as the claim says of every first period. The pass then raises
  AttributeError on line 131, so the combined equity curve and the aggregated report
  (total return 0, Sharpe ratio 0) are never produced.
\<close>

theorem oos_report_never_produced:
  "generate_signals plain_numerics (SmaCross 1 2) [(3, 102)] = Inr [(3, 0)] \<and>
   strategy_ret_col (merge_left [(3, 102)] [(3, 0)]) = [Fin 0] \<and>
   run_walkforward plain_numerics [(1, 100), (2, 101), (3, 102), (4, 103), (5, 104)]
       ''sma_cross'' [(''fast'', [PyInt 1]), (''slow'', [PyInt 2])] 2 1 = Inl AttributeError"
proof (intro conjI)
  show "generate_signals plain_numerics (SmaCross 1 2) [(3, 102)] = Inr [(3, 0)]"
    by (simp add: generate_signals.simps rolling_arg_def plain_numerics_def
        plain_rolling_mean_def rolling_window_def fl_sum_def sma_signal_def fl_gt_def
        round64_numeral Let_def)
  show "strategy_ret_col (merge_left [(3, 102)] [(3, 0)]) = [Fin 0]"
    by (simp add: merge_left_def strategy_ret_col_def position_col_def shift1_def
        signal_col_def fillna0_int_def ret_col_def fillna0_def)
  show "run_walkforward plain_numerics [(1, 100), (2, 101), (3, 102), (4, 103), (5, 104)]
       ''sma_cross'' [(''fast'', [PyInt 1]), (''slow'', [PyInt 2])] 2 1 = Inl AttributeError"
    by (rule run_walkforward_attribute_error) (simp_all add: grid_eval)
qed


end
